theory Spec2Isabelle
  imports Main "HOL-Library.Word"
begin

section \<open>The copy_file_range stub of lean-zig (src/copy_file_range_stub.c)\<close>

text \<open>
  The repository is one C function,
  \<^verbatim>\<open>
  ssize_t copy_file_range(int fd_in, off_t *off_in,
                          int fd_out, off_t *off_out,
                          size_t len, unsigned int flags)
  {
      errno = ENOSYS;
      return -1;
  }
  \<close>
  It is embedded as a function from its six arguments and the program state before the
  call to the returned value and the program state after the call.
\<close>

subsection \<open>C types\<close>

text \<open>
  The stub is built for glibc on 64-bit Linux (LP64): \<open>int\<close> and \<open>unsigned int\<close> are
  32 bits wide, \<open>ssize_t\<close>, \<open>size_t\<close>, \<open>off_t\<close> and pointers are 64 bits wide. Signed types
  are read with \<open>sint\<close>, unsigned ones with \<open>unat\<close>.
\<close>

type_synonym c_int = "32 word"
type_synonym c_uint = "32 word"
type_synonym ssize_t = "64 word"
type_synonym size_t = "64 word"
type_synonym off_t = "64 word"

text \<open>An \<open>off_t *\<close> is an address; the null pointer is the address 0.\<close>

type_synonym off_t_ptr = "64 word"

definition NULL :: off_t_ptr where
  "NULL = 0"

subsection \<open>Program state\<close>

text \<open>
  What a call of the real system call could touch: the caller's error indicator, the
  \<open>off_t\<close> objects in memory that the offset pointers may point to (an address with no
  object is unmapped), and the open files behind the descriptors, each with its bytes and
  its file position. In this state \<open>mem\<close> holds the objects that lie outside the storage of
  \<open>errno\<close>; the section on addressable memory below has \<open>errno\<close> as bytes of the same
  memory as everything else, and relates the two.
\<close>

record open_file =
  contents :: "8 word list"
  position :: off_t

record state =
  errno :: c_int
  mem :: "off_t_ptr \<rightharpoonup> off_t"
  files :: "c_int \<rightharpoonup> open_file"

text \<open>
  Modelled from the spec: the macro \<open>ENOSYS\<close> comes from \<^verbatim>\<open>errno.h\<close>, which is not
  among the sources. The spec calls it the fixed value meaning "function not implemented
  on this system"; on Linux that value is 38.
\<close>

definition ENOSYS :: c_int where
  "ENOSYS = 38"

subsection \<open>The function\<close>

text \<open>
  Line 13 stores \<open>ENOSYS\<close> in \<open>errno\<close>, line 14 returns \<open>-1\<close>. No parameter occurs in the
  body.
\<close>

definition copy_file_range ::
  "c_int \<Rightarrow> off_t_ptr \<Rightarrow> c_int \<Rightarrow> off_t_ptr \<Rightarrow> size_t \<Rightarrow> c_uint \<Rightarrow> state \<Rightarrow> ssize_t \<times> state" where
  "copy_file_range fd_in off_in fd_out off_out len flags s =
     (let s1 = s\<lparr>errno := ENOSYS\<rparr>
      in (- 1, s1))"

subsection \<open>The body, statement by statement\<close>

text \<open>
  The same body as a machine that executes one statement per step. An activation of the
  function holds the place of control and the six parameters, which are local objects of
  the call. \<open>Line13\<close> is before \<^verbatim>\<open>errno = ENOSYS;\<close>, \<open>Line14\<close> is before
  \<^verbatim>\<open>return -1;\<close>, and \<open>Returned r\<close> is after the return of \<open>r\<close>.
\<close>

datatype control = Line13 | Line14 | Returned ssize_t

record params =
  arg_fd_in :: c_int
  arg_off_in :: off_t_ptr
  arg_fd_out :: c_int
  arg_off_out :: off_t_ptr
  arg_len :: size_t
  arg_flags :: c_uint

record activation =
  at :: control
  args :: params

definition enter ::
  "c_int \<Rightarrow> off_t_ptr \<Rightarrow> c_int \<Rightarrow> off_t_ptr \<Rightarrow> size_t \<Rightarrow> c_uint \<Rightarrow> activation" where
  "enter fd_in off_in fd_out off_out len flags =
     \<lparr>at = Line13,
      args = \<lparr>arg_fd_in = fd_in, arg_off_in = off_in, arg_fd_out = fd_out,
              arg_off_out = off_out, arg_len = len, arg_flags = flags\<rparr>\<rparr>"

text \<open>One statement. An activation that has returned has no step left.\<close>

definition step :: "activation \<Rightarrow> state \<Rightarrow> (activation \<times> state) option" where
  "step a s =
     (case at a of
        Line13 \<Rightarrow> Some (a\<lparr>at := Line14\<rparr>, s\<lparr>errno := ENOSYS\<rparr>)
      | Line14 \<Rightarrow> Some (a\<lparr>at := Returned (- 1)\<rparr>, s)
      | Returned r \<Rightarrow> None)"

text \<open>At most \<open>n\<close> steps, stopping early where no step is left.\<close>

fun exec :: "nat \<Rightarrow> activation \<Rightarrow> state \<Rightarrow> activation \<times> state" where
  "exec 0 a s = (a, s)"
| "exec (Suc n) a s =
     (case step a s of
        None \<Rightarrow> (a, s)
      | Some (a', s') \<Rightarrow> exec n a' s')"

subsection \<open>Threads\<close>

text \<open>
  Modelled from the spec: \<open>errno\<close> is a macro of \<^verbatim>\<open>errno.h\<close>, which is not among the
  sources; the spec calls it "the standard per-thread error-code side channel". So a
  system of threads has one error indicator per thread, while memory and the open files
  are shared by all threads. Each thread has one activation of the function.
\<close>

type_synonym tid = nat

record system =
  thread_errno :: "tid \<Rightarrow> c_int"
  activations :: "tid \<Rightarrow> activation"
  shared_mem :: "off_t_ptr \<rightharpoonup> off_t"
  shared_files :: "c_int \<rightharpoonup> open_file"

text \<open>The program state as thread \<open>t\<close> sees it.\<close>

definition view :: "tid \<Rightarrow> system \<Rightarrow> state" where
  "view t g = \<lparr>errno = thread_errno g t, mem = shared_mem g, files = shared_files g\<rparr>"

text \<open>
  Thread \<open>t\<close> executes its next statement on its view of the system, and everything the
  statement leaves in the state is written back: the error indicator to the thread's own,
  memory and files to the shared ones. A thread that has returned stays as it is.
\<close>

definition thread_step :: "tid \<Rightarrow> system \<Rightarrow> system" where
  "thread_step t g =
     (case step (activations g t) (view t g) of
        None \<Rightarrow> g
      | Some (a', s') \<Rightarrow>
          g\<lparr>thread_errno := (thread_errno g)(t := errno s'),
            activations := (activations g)(t := a'),
            shared_mem := mem s',
            shared_files := files s'\<rparr>)"

text \<open>
  An interleaving is the list of the threads in the order in which they take their steps.
\<close>

definition interleave :: "tid list \<Rightarrow> system \<Rightarrow> system" where
  "interleave sch g = fold thread_step sch g"

text \<open>Every thread \<open>t\<close> enters the function, with the arguments \<open>call t\<close>.\<close>

definition enter_all :: "(tid \<Rightarrow> params) \<Rightarrow> system \<Rightarrow> system" where
  "enter_all call g = g\<lparr>activations := (\<lambda>t. \<lparr>at = Line13, args = call t\<rparr>)\<rparr>"

subsection \<open>Addressable memory\<close>

text \<open>
  In C \<open>errno\<close> is a modifiable lvalue of type \<open>int\<close>: an object of the calling thread that
  has an address, like the objects the offset pointers point to. This section has the
  memory of the process as bytes at addresses (an address with no byte is unmapped), with
  integers stored in little-endian order as on the Linux targets of the stub. An access
  to an unmapped byte is a fault, the value \<open>None\<close>.
\<close>

type_synonym byte = "8 word"
type_synonym addr = "64 word"

text \<open>The addresses of the \<open>n\<close> bytes of an object at \<open>p\<close>.\<close>

definition span :: "addr \<Rightarrow> nat \<Rightarrow> addr list" where
  "span p n = map (\<lambda>i. p + of_nat i) [0..<n]"

definition mapped :: "(addr \<rightharpoonup> byte) \<Rightarrow> addr \<Rightarrow> nat \<Rightarrow> bool" where
  "mapped m p n = list_all (\<lambda>a. m a \<noteq> None) (span p n)"


definition load :: "(addr \<rightharpoonup> byte) \<Rightarrow> addr \<Rightarrow> nat \<Rightarrow> byte list option" where
  "load m p n = (if mapped m p n then Some (map (\<lambda>a. the (m a)) (span p n)) else None)"

definition store :: "(addr \<rightharpoonup> byte) \<Rightarrow> addr \<Rightarrow> byte list \<Rightarrow> (addr \<rightharpoonup> byte) option" where
  "store m p bs =
     (if mapped m p (length bs) then Some (m ++ map_of (zip (span p (length bs)) bs))
      else None)"

definition int_bytes :: "c_int \<Rightarrow> byte list" where
  "int_bytes v = map (\<lambda>i. ucast (drop_bit (8 * i) v)) [0..<4]"

definition word_of_bytes :: "byte list \<Rightarrow> 'a::len word" where
  "word_of_bytes bs = horner_sum ucast 256 bs"

text \<open>
  Modelled from the spec: \<^verbatim>\<open>errno.h\<close> is not among the sources, so where \<open>errno\<close> lives is
  a component of the state, \<open>errno_location\<close>, the address of the four bytes of the calling
  thread's error indicator.
\<close>

record process =
  errno_location :: addr
  memory :: "addr \<rightharpoonup> byte"
  open_files :: "c_int \<rightharpoonup> open_file"

definition errno_mapped :: "process \<Rightarrow> bool" where
  "errno_mapped c = mapped (memory c) (errno_location c) 4"

text \<open>
  The function on this state. Line 13 is a store of four bytes at \<open>errno_location\<close>; it is
  the only access to memory in the body. Line 14 returns \<open>-1\<close>.
\<close>

definition copy_file_range_mem ::
  "c_int \<Rightarrow> off_t_ptr \<Rightarrow> c_int \<Rightarrow> off_t_ptr \<Rightarrow> size_t \<Rightarrow> c_uint \<Rightarrow> process
     \<Rightarrow> (ssize_t \<times> process) option" where
  "copy_file_range_mem fd_in off_in fd_out off_out len flags c =
     (case store (memory c) (errno_location c) (int_bytes ENOSYS) of
        None \<Rightarrow> None
      | Some m \<Rightarrow> Some (- 1, c\<lparr>memory := m\<rparr>))"

text \<open>
  The state of the first sections, read off a process: \<open>errno\<close> is the integer in the four
  bytes at \<open>errno_location\<close>, and \<open>mem\<close> holds the \<open>off_t\<close> objects whose eight bytes are
  mapped and do not overlap those four. There is none where \<open>errno\<close> is not mapped.
\<close>

definition abstract :: "process \<Rightarrow> state option" where
  "abstract c =
     (case load (memory c) (errno_location c) 4 of
        None \<Rightarrow> None
      | Some bs \<Rightarrow>
          Some \<lparr>errno = word_of_bytes bs,
                mem = (\<lambda>p. if set (span p 8) \<inter> set (span (errno_location c) 4) = {}
                          then map_option word_of_bytes (load (memory c) p 8)
                          else None),
                files = open_files c\<rparr>)"


section \<open>Properties\<close>

text \<open>
  C1. For every argument combination (null offset pointers, negative descriptors, zero
  length and arbitrary flags included) and every state, copy_file_range returns the
  failure sentinel: the returned \<open>ssize_t\<close> is the word \<open>-1\<close>, its signed value is \<open>-1\<close>,
  and so it is neither 0 nor a positive byte count.
\<close>

theorem copy_file_range_returns_minus_one:
  "fst (copy_file_range fd_in off_in fd_out off_out len flags s) = - 1
   \<and> sint (fst (copy_file_range fd_in off_in fd_out off_out len flags s)) = - 1
   \<and> \<not> 0 \<le> sint (fst (copy_file_range fd_in off_in fd_out off_out len flags s))"
  by (simp add: copy_file_range_def)

text \<open>
  C2. Every call, whatever its arguments and the state before it, leaves the error
  indicator at exactly \<open>ENOSYS\<close> (38, which is not 0, the value of "no error"), and
  \<open>ENOSYS\<close> is the only value the function ever leaves there: the set of error indicators
  after a call, taken over all arguments and all states, is \<open>{ENOSYS}\<close>.
\<close>

theorem copy_file_range_sets_errno_ENOSYS:
  "errno (snd (copy_file_range fd_in off_in fd_out off_out len flags s)) = ENOSYS
   \<and> sint ENOSYS = 38
   \<and> ENOSYS \<noteq> 0
   \<and> {errno (snd (copy_file_range fi oi fo oo l f t)) | fi oi fo oo l f t. True} = {ENOSYS}"
  by (simp add: copy_file_range_def ENOSYS_def)

text \<open>
  C3. The function is deterministic and independent of its input: any two calls, with any
  arguments (valid descriptors or not) and in any two states, have the same observable
  outcome, that is the same return value and the same error indicator.
\<close>

theorem copy_file_range_input_independent:
  "fst (copy_file_range fd_in off_in fd_out off_out len flags s)
     = fst (copy_file_range fd_in' off_in' fd_out' off_out' len' flags' s')
   \<and> errno (snd (copy_file_range fd_in off_in fd_out off_out len flags s))
     = errno (snd (copy_file_range fd_in' off_in' fd_out' off_out' len' flags' s'))"
  by (simp add: copy_file_range_def)

subsection \<open>Parameters, memory and files\<close>

text \<open>No step writes to a parameter: the parameters of an activation stay as passed.\<close>

lemma step_args: "step a s = Some (a', s') \<Longrightarrow> args a' = args a"
  by (cases "at a") (auto simp add: step_def)

lemma exec_args: "args (fst (exec n a s)) = args a"
proof (induction n arbitrary: a s)
  case 0
  show ?case by simp
next
  case (Suc n)
  show ?case
  proof (cases "step a s")
    case None
    then show ?thesis by simp
  next
    case (Some p)
    obtain a' s' where p: "p = (a', s')" by (cases p)
    with Some have "args a' = args a" by (simp add: step_args)
    with Some p Suc.IH [of a' s'] show ?thesis by simp
  qed
qed

subsection \<open>Stores and loads\<close>

lemma length_int_bytes: "length (int_bytes v) = 4"
  by (simp add: int_bytes_def)

lemma length_span: "length (span p n) = n"
  by (simp add: span_def)

lemma span4: "span p 4 = [p, p + 1, p + 2, p + 3]"
  by (simp add: span_def upt_rec)


lemma distinct_span4: "distinct (span p 4)"
  by (simp add: span4)

lemma int_bytes_ENOSYS: "int_bytes ENOSYS = [38, 0, 0, 0]"
  by (simp add: int_bytes_def ENOSYS_def upt_rec)

lemma word_of_bytes_ENOSYS: "(word_of_bytes (int_bytes ENOSYS) :: c_int) = ENOSYS"
  unfolding int_bytes_ENOSYS by (simp add: word_of_bytes_def ENOSYS_def)

lemma store_mapped: "mapped m p (length bs) \<Longrightarrow> \<exists>m'. store m p bs = Some m'"
  by (simp add: store_def)

text \<open>A store leaves every byte outside the stored object as it was.\<close>

lemma store_outside:
  assumes "store m p bs = Some m'" and "q \<notin> set (span p (length bs))"
  shows "m' q = m q"
proof -
  from assms(2) have "map_of (zip (span p (length bs)) bs) q = None"
    by (simp add: length_span)
  with assms(1) show ?thesis
    by (auto simp add: store_def map_add_def split: if_splits)
qed


text \<open>A store does not depend on a byte outside the stored object, mapped or not.\<close>

lemma mapped_upd_outside:
  "q \<notin> set (span p n) \<Longrightarrow> mapped (m(q := b)) p n = mapped m p n"
  by (auto simp add: mapped_def list_all_iff)

lemma store_upd_outside:
  assumes "q \<notin> set (span p (length bs))"
  shows "store (m(q := b)) p bs = map_option (\<lambda>m'. m'(q := b)) (store m p bs)"
proof -
  from assms have none: "map_of (zip (span p (length bs)) bs) q = None"
    by (simp add: length_span)
  have "(m(q := b)) ++ map_of (zip (span p (length bs)) bs)
          = (m ++ map_of (zip (span p (length bs)) bs))(q := b)"
    using none by (auto simp add: fun_eq_iff map_add_def split: option.splits)
  then show ?thesis
    using assms by (simp add: store_def mapped_upd_outside)
qed

lemma copy_file_range_mem_Some:
  "errno_mapped c \<Longrightarrow>
   copy_file_range_mem fd_in off_in fd_out off_out len flags c =
     Some (- 1, c\<lparr>memory := memory c ++
                     map_of (zip (span (errno_location c) 4) (int_bytes ENOSYS))\<rparr>)"
  by (simp add: copy_file_range_mem_def errno_mapped_def store_def length_int_bytes)

lemma copy_file_range_mem_upd_outside:
  assumes "q \<notin> set (span (errno_location c) 4)"
  shows "copy_file_range_mem fd_in off_in fd_out off_out len flags
           (c\<lparr>memory := (memory c)(q := b)\<rparr>)
     = map_option (\<lambda>(r, c'). (r, c'\<lparr>memory := (memory c')(q := b)\<rparr>))
         (copy_file_range_mem fd_in off_in fd_out off_out len flags c)"
proof -
  from assms have "q \<notin> set (span (errno_location c) (length (int_bytes ENOSYS)))"
    by (simp add: length_int_bytes)
  from store_upd_outside [OF this, of "memory c" b] show ?thesis
    by (cases "store (memory c) (errno_location c) (int_bytes ENOSYS)")
       (simp_all add: copy_file_range_mem_def)
qed

text \<open>
  C4. The function never dereferences \<open>off_in\<close> or \<open>off_out\<close> and never reads or writes a
  parameter, so that null offset pointers are safe and no input makes it fault. In every
  process whose \<open>errno\<close> is mapped (the one object the body stores to):
  \<^item> the call does not fault, whatever the six arguments are and whatever is mapped at
    the addresses \<open>off_in\<close> and \<open>off_out\<close>, and in particular not with both pointers null;
  \<^item> the outcome is the one of a call with any other six arguments;
  \<^item> a byte \<open>q\<close> outside the storage of \<open>errno\<close>, such as a byte behind an offset pointer,
    may be given any other value \<open>b\<close> or be unmapped before the call: the call then faults
    or succeeds as before, returns what it returned, and leaves the same process but for
    \<open>q\<close>, which is carried through as \<open>b\<close>. So the byte is neither read nor written;
  \<^item> however many statements have been executed, the parameters of the activation are the
    arguments passed at entry.
\<close>

theorem copy_file_range_never_dereferences:
  assumes "errno_mapped c"
  shows "copy_file_range_mem fd_in off_in fd_out off_out len flags c \<noteq> None
   \<and> copy_file_range_mem fd_in NULL fd_out NULL len flags c \<noteq> None
   \<and> copy_file_range_mem fd_in off_in fd_out off_out len flags c
     = copy_file_range_mem fd_in' off_in' fd_out' off_out' len' flags' c
   \<and> (q \<notin> set (span (errno_location c) 4) \<longrightarrow>
        copy_file_range_mem fd_in off_in fd_out off_out len flags
          (c\<lparr>memory := (memory c)(q := b)\<rparr>)
        = map_option (\<lambda>(r, c'). (r, c'\<lparr>memory := (memory c')(q := b)\<rparr>))
            (copy_file_range_mem fd_in off_in fd_out off_out len flags c))
   \<and> args (fst (exec n (enter fd_in off_in fd_out off_out len flags) s))
     = \<lparr>arg_fd_in = fd_in, arg_off_in = off_in, arg_fd_out = fd_out,
        arg_off_out = off_out, arg_len = len, arg_flags = flags\<rparr>"
proof -
  have "args (fst (exec n (enter fd_in off_in fd_out off_out len flags) s))
          = args (enter fd_in off_in fd_out off_out len flags)"
    by (rule exec_args)
  then have params: "args (fst (exec n (enter fd_in off_in fd_out off_out len flags) s))
     = \<lparr>arg_fd_in = fd_in, arg_off_in = off_in, arg_fd_out = fd_out,
        arg_off_out = off_out, arg_len = len, arg_flags = flags\<rparr>"
    by (simp add: enter_def)
  from assms show ?thesis
    by (simp add: copy_file_range_mem_Some copy_file_range_mem_upd_outside params
        del: map_option_eq_Some)
qed

text \<open>
  An instance: \<open>errno\<close> at the addresses 4096 to 4099 and nothing else mapped, descriptors
  \<open>-1\<close>, both offset pointers null. The call does not fault, and mapping a byte at the null
  address before the call changes nothing but that byte.
\<close>

theorem copy_file_range_never_dereferences_witness:
  "errno_mapped
     \<lparr>errno_location = 4096,
      memory = [4096 \<mapsto> 0, 4097 \<mapsto> 0, 4098 \<mapsto> 0, 4099 \<mapsto> 0],
      open_files = Map.empty\<rparr>
   \<and> NULL \<notin> set (span 4096 4)
   \<and> copy_file_range_mem (- 1) NULL (- 1) NULL 0 0
        \<lparr>errno_location = 4096,
         memory = [4096 \<mapsto> 0, 4097 \<mapsto> 0, 4098 \<mapsto> 0, 4099 \<mapsto> 0],
         open_files = Map.empty\<rparr> \<noteq> None
   \<and> copy_file_range_mem (- 1) NULL (- 1) NULL 0 0
        \<lparr>errno_location = 4096,
         memory = [4096 \<mapsto> 0, 4097 \<mapsto> 0, 4098 \<mapsto> 0, 4099 \<mapsto> 0, NULL \<mapsto> 7],
         open_files = Map.empty\<rparr>
     = map_option (\<lambda>(r, c'). (r, c'\<lparr>memory := (memory c')(NULL \<mapsto> 7)\<rparr>))
         (copy_file_range_mem (- 1) NULL (- 1) NULL 0 0
            \<lparr>errno_location = 4096,
             memory = [4096 \<mapsto> 0, 4097 \<mapsto> 0, 4098 \<mapsto> 0, 4099 \<mapsto> 0],
             open_files = Map.empty\<rparr>)"
proof -
  let ?c = "\<lparr>errno_location = 4096,
             memory = [4096 \<mapsto> 0, 4097 \<mapsto> 0, 4098 \<mapsto> (0::byte), 4099 \<mapsto> 0],
             open_files = Map.empty :: c_int \<rightharpoonup> open_file\<rparr>"
  have m: "errno_mapped ?c"
    by (simp add: errno_mapped_def mapped_def span4)
  have n: "NULL \<notin> set (span (errno_location ?c) 4)"
    by (simp add: span4 NULL_def)
  from copy_file_range_never_dereferences
         [OF m, where q = NULL and b = "Some 7" and fd_in = "- 1" and off_in = NULL
            and fd_out = "- 1" and off_out = NULL and len = 0 and flags = 0]
       m n
  show ?thesis by simp
qed





subsection \<open>Termination\<close>

text \<open>From its entry the body takes two steps and has then returned; more fuel adds nothing.\<close>

lemma exec_enter:
  "exec (Suc (Suc n)) (enter fd_in off_in fd_out off_out len flags) s
     = ((enter fd_in off_in fd_out off_out len flags)\<lparr>at := Returned (- 1)\<rparr>,
        s\<lparr>errno := ENOSYS\<rparr>)"
  by (cases n) (simp_all add: step_def enter_def)

lemma step_None_iff: "(step a s = None) = (\<exists>r. at a = Returned r)"
  by (cases "at a") (simp_all add: step_def)

text \<open>
  C6. The function always terminates.
  \<^item> It is total: every call, in every state, has a return value and a state after it.
  \<^item> It never blocks: an activation has a next step exactly as long as it has not returned,
    whatever the state.
  \<^item> It is straight-line: from the entry, two steps (the assignment and the return) reach
    \<open>Returned\<close>, for all arguments and all states, with the return value and the state of
    \<open>copy_file_range\<close>; no step fails, and further fuel changes nothing.
\<close>

theorem copy_file_range_terminates:
  "(\<exists>r s'. copy_file_range fd_in off_in fd_out off_out len flags s = (r, s'))
   \<and> (step a s = None) = (\<exists>r. at a = Returned r)
   \<and> exec (Suc (Suc n)) (enter fd_in off_in fd_out off_out len flags) s
     = ((enter fd_in off_in fd_out off_out len flags)
          \<lparr>at := Returned (fst (copy_file_range fd_in off_in fd_out off_out len flags s))\<rparr>,
        snd (copy_file_range fd_in off_in fd_out off_out len flags s))"
proof -
  have total: "\<exists>r s'. copy_file_range fd_in off_in fd_out off_out len flags s = (r, s')"
    by (simp add: copy_file_range_def)
  have result: "copy_file_range fd_in off_in fd_out off_out len flags s
                  = (- 1, s\<lparr>errno := ENOSYS\<rparr>)"
    by (simp add: copy_file_range_def)
  from total step_None_iff [of a s] exec_enter [of n fd_in off_in fd_out off_out len flags s]
  show ?thesis
    by (simp only: result fst_conv snd_conv simp_thms)
qed

subsection \<open>Concurrent calls\<close>

text \<open>The step of a thread, by the place of its control.\<close>

lemma thread_step_Line13:
  "at (activations g t) = Line13 \<Longrightarrow>
   thread_step t g =
     g\<lparr>thread_errno := (thread_errno g)(t := ENOSYS),
       activations := (activations g)(t := (activations g t)\<lparr>at := Line14\<rparr>)\<rparr>"
  by (simp add: thread_step_def step_def view_def)

lemma thread_step_Line14:
  "at (activations g t) = Line14 \<Longrightarrow>
   thread_step t g =
     g\<lparr>activations := (activations g)(t := (activations g t)\<lparr>at := Returned (- 1)\<rparr>)\<rparr>"
  by (simp add: thread_step_def step_def view_def)

lemma thread_step_Returned:
  "at (activations g t) = Returned r \<Longrightarrow> thread_step t g = g"
  by (simp add: thread_step_def step_def)

text \<open>
  The steps of two threads commute: a step of \<open>t\<close> writes the error indicator and the
  activation of \<open>t\<close> only, and depends on nothing else.
\<close>

lemma thread_step_commute:
  "thread_step t (thread_step u g) = thread_step u (thread_step t g)"
proof (cases "t = u")
  case True
  then show ?thesis by simp
next
  case False
  then show ?thesis
    by (cases "at (activations g t)"; cases "at (activations g u)")
      (simp_all add: thread_step_Line13 thread_step_Line14 thread_step_Returned fun_upd_twist)
qed

lemma interleave_snoc: "interleave (sch @ [t]) g = thread_step t (interleave sch g)"
  by (simp add: interleave_def)

text \<open>
  One more step of thread \<open>t\<close>, taken in the system that an interleaving \<open>sch\<close> is claimed to
  end in, gives the system claimed for \<open>sch @ [t]\<close>.
\<close>

lemma thread_step_closed_form:
  fixes g :: system and call :: "tid \<Rightarrow> params"
  defines "after \<equiv> (\<lambda>sch.
     g\<lparr>thread_errno := (\<lambda>t. if t \<in> set sch then ENOSYS else thread_errno g t),
       activations := (\<lambda>t. \<lparr>at = (if count_list sch t = 0 then Line13
                                     else if count_list sch t = 1 then Line14
                                     else Returned (- 1)),
                               args = call t\<rparr>)\<rparr>)"
  shows "thread_step t (after sch) = after (sch @ [t])"
proof -
  consider (zero) "count_list sch t = 0" | (one) "count_list sch t = 1"
    | (more) "2 \<le> count_list sch t"
    by linarith
  then show ?thesis
  proof cases
    case zero
    then have out: "t \<notin> set sch" by (simp add: count_list_0_iff)
    with zero have "at (activations (after sch) t) = Line13"
      by (simp add: after_def)
    then show ?thesis using zero out
      by (auto simp add: thread_step_Line13 after_def fun_eq_iff)
  next
    case one
    then have inside: "t \<in> set sch" using count_list_0_iff [of sch t] by auto
    with one have "at (activations (after sch) t) = Line14"
      by (simp add: after_def)
    then show ?thesis using one inside
      by (auto simp add: thread_step_Line14 after_def fun_eq_iff)
  next
    case more
    then have inside: "t \<in> set sch" using count_list_0_iff [of sch t] by auto
    with more have "at (activations (after sch) t) = Returned (- 1)"
      by (simp add: after_def)
    then show ?thesis using more inside
      by (auto simp add: thread_step_Returned after_def fun_eq_iff)
  qed
qed

lemma interleave_closed_form:
  "interleave sch (enter_all call g) =
     g\<lparr>thread_errno := (\<lambda>t. if t \<in> set sch then ENOSYS else thread_errno g t),
       activations := (\<lambda>t. \<lparr>at = (if count_list sch t = 0 then Line13
                                     else if count_list sch t = 1 then Line14
                                     else Returned (- 1)),
                               args = call t\<rparr>)\<rparr>"
proof (induction sch rule: rev_induct)
  case Nil
  show ?case by (simp add: interleave_def enter_all_def)
next
  case (snoc t sch)
  then show ?case by (simp only: interleave_snoc thread_step_closed_form)
qed

text \<open>
  C7. The function is stateless and reentrant. Let any number of threads call it, each
  with arguments of its own, and let their statements be interleaved in any order \<open>sch\<close>.
  \<^item> The steps of any two threads commute, in every state of the system: no step of one
    thread reads or writes what a step of another thread writes, so there is nothing to
    race on.
  \<^item> After the interleaving, a thread that has taken both of its steps has returned \<open>-1\<close>,
    and the error indicator of every thread that has taken a step is \<open>ENOSYS\<close>, whatever
    the other threads did in between; the error indicator of a thread that has not yet
    run is untouched, and so are the shared memory and the shared files. The system
    reached depends only on how many steps each thread has taken, not on their order.
\<close>

theorem copy_file_range_reentrant:
  "thread_step t (thread_step u g) = thread_step u (thread_step t g)
   \<and> interleave sch (enter_all call g) =
       g\<lparr>thread_errno := (\<lambda>t. if t \<in> set sch then ENOSYS else thread_errno g t),
         activations := (\<lambda>t. \<lparr>at = (if count_list sch t = 0 then Line13
                                       else if count_list sch t = 1 then Line14
                                       else Returned (- 1)),
                                 args = call t\<rparr>)\<rparr>
   \<and> shared_mem (interleave sch (enter_all call g)) = shared_mem g
   \<and> shared_files (interleave sch (enter_all call g)) = shared_files g"
proof -
  note closed = interleave_closed_form [of sch call g]
  have "shared_mem (interleave sch (enter_all call g)) = shared_mem g"
    by (simp add: closed)
  moreover have "shared_files (interleave sch (enter_all call g)) = shared_files g"
    by (simp add: closed)
  ultimately show ?thesis
    using thread_step_commute [of t u g] closed by blast
qed

subsection \<open>The error indicator across calls\<close>

text \<open>
  C8, as amended. The error indicator is the only part of the program state the function
  modifies, and it is overwritten unconditionally: the state after a call is the state
  before it with \<open>errno\<close> set to \<open>ENOSYS\<close>. Whatever value \<open>e\<close> the caller had in \<open>errno\<close>
  before the call, \<open>errno\<close> is \<open>ENOSYS\<close> after it, and the state after the call does not
  depend on \<open>e\<close>. The prior value of \<open>errno\<close> survives the call exactly when it was \<open>ENOSYS\<close>
  already.
\<close>

theorem copy_file_range_overwrites_errno_only:
  "snd (copy_file_range fd_in off_in fd_out off_out len flags s) = s\<lparr>errno := ENOSYS\<rparr>
   \<and> errno (snd (copy_file_range fd_in off_in fd_out off_out len flags (s\<lparr>errno := e\<rparr>)))
     = ENOSYS
   \<and> snd (copy_file_range fd_in off_in fd_out off_out len flags (s\<lparr>errno := e\<rparr>))
     = snd (copy_file_range fd_in off_in fd_out off_out len flags s)
   \<and> (errno (snd (copy_file_range fd_in off_in fd_out off_out len flags s)) = errno s)
     = (errno s = ENOSYS)"
  by (auto simp add: copy_file_range_def)

text \<open>
  As stated, C8 says that the prior value of \<open>errno\<close> is never preserved across the call. A
  caller whose \<open>errno\<close> is \<open>ENOSYS\<close> before the call finds the same value after it, and the
  whole state as it was.
\<close>

theorem copy_file_range_keeps_errno_ENOSYS:
  "errno (snd (copy_file_range 3 NULL 4 NULL 4096 0
            \<lparr>errno = ENOSYS, mem = Map.empty, files = Map.empty\<rparr>))
     = errno \<lparr>errno = ENOSYS, mem = Map.empty, files = Map.empty\<rparr>
   \<and> snd (copy_file_range 3 NULL 4 NULL 4096 0
            \<lparr>errno = ENOSYS, mem = Map.empty, files = Map.empty\<rparr>)
     = \<lparr>errno = ENOSYS, mem = Map.empty, files = Map.empty\<rparr>"
  by (simp add: copy_file_range_def)

text \<open>
  C9. A call is idempotent on the program state: a second call, with the same or with any
  other arguments, made in the state the first call leaves, returns what the first call
  returned (\<open>-1\<close>) and leaves the state the first call left (\<open>errno = ENOSYS\<close>, the rest as
  before the first call).
\<close>

theorem copy_file_range_idempotent:
  "copy_file_range fd_in' off_in' fd_out' off_out' len' flags'
     (snd (copy_file_range fd_in off_in fd_out off_out len flags s))
   = copy_file_range fd_in off_in fd_out off_out len flags s
   \<and> copy_file_range fd_in off_in fd_out off_out len flags
     (snd (copy_file_range fd_in off_in fd_out off_out len flags s))
   = (- 1, s\<lparr>errno := ENOSYS\<rparr>)"
  by (simp add: copy_file_range_def)

subsection \<open>The scenarios of the spec\<close>

text \<open>
  Two open descriptors 3 and 4, both offsets 0 (stored at two mapped addresses), length
  4096, flags 0: the call returns \<open>-1\<close>, \<open>errno\<close> is \<open>ENOSYS\<close>, and files and memory are as
  before.
\<close>

lemma scenario_valid_descriptors:
  "copy_file_range 3 4096 4 4104 4096 0
     \<lparr>errno = 0,
      mem = [4096 \<mapsto> 0, 4104 \<mapsto> 0],
      files = [3 \<mapsto> \<lparr>contents = a, position = 0\<rparr>, 4 \<mapsto> \<lparr>contents = b, position = 0\<rparr>]\<rparr>
   = (- 1,
      \<lparr>errno = ENOSYS,
       mem = [4096 \<mapsto> 0, 4104 \<mapsto> 0],
       files = [3 \<mapsto> \<lparr>contents = a, position = 0\<rparr>, 4 \<mapsto> \<lparr>contents = b, position = 0\<rparr>]\<rparr>)"
  by (simp add: copy_file_range_def)

text \<open>
  Descriptors \<open>-1\<close> and \<open>-1\<close>, null offset pointers, no file open and nothing mapped: the
  same return value and the same \<open>errno\<close>.
\<close>

lemma scenario_invalid_descriptors:
  "copy_file_range (- 1) NULL (- 1) NULL 0 0
     \<lparr>errno = 0, mem = Map.empty, files = Map.empty\<rparr>
   = (- 1, \<lparr>errno = ENOSYS, mem = Map.empty, files = Map.empty\<rparr>)"
  by (simp add: copy_file_range_def)

subsection \<open>The two states\<close>

text \<open>
  The function on addressable memory refines the function on the state of the first
  sections: where that state can be read off a process, the call does not fault, returns
  the same value, and the state read off the process after the call is the state after
  the call of \<open>copy_file_range\<close>.
\<close>

lemma load_outside:
  assumes "store m p bs = Some m'" and "set (span q n) \<inter> set (span p (length bs)) = {}"
  shows "load m' q n = load m q n"
proof -
  have same: "m' a = m a" if "a \<in> set (span q n)" for a
  proof -
    from that assms(2) have "a \<notin> set (span p (length bs))" by blast
    with assms(1) show ?thesis by (rule store_outside)
  qed
  then have "mapped m' q n = mapped m q n"
    by (simp add: mapped_def list_all_iff)
  with same show ?thesis by (simp add: load_def)
qed

lemma load_stored:
  assumes "store m p bs = Some m'" and "distinct (span p (length bs))"
  shows "load m' p (length bs) = Some bs"
proof -
  let ?as = "span p (length bs)"
  from assms(1) have m': "m' = m ++ map_of (zip ?as bs)"
    by (simp add: store_def split: if_splits)
  have at: "m' (?as ! i) = Some (bs ! i)" if "i < length bs" for i
    unfolding m' using that assms(2)
    by (intro map_add_find_right map_of_zip_nth) (simp_all add: length_span)
  have "mapped m' p (length bs)"
    unfolding mapped_def list_all_length using at by (simp add: length_span)
  moreover have "map (\<lambda>a. the (m' a)) ?as = bs"
    by (rule nth_equalityI) (simp_all add: length_span at)
  ultimately show ?thesis by (simp add: load_def)
qed

lemma abstract_Some_iff: "(\<exists>s. abstract c = Some s) = errno_mapped c"
  by (simp add: abstract_def errno_mapped_def load_def split: option.splits)

lemma copy_file_range_mem_refines:
  assumes "abstract c = Some s"
  shows "\<exists>c'. copy_file_range_mem fd_in off_in fd_out off_out len flags c
               = Some (fst (copy_file_range fd_in off_in fd_out off_out len flags s), c')
            \<and> abstract c'
               = Some (snd (copy_file_range fd_in off_in fd_out off_out len flags s))"
proof -
  from assms have mp: "mapped (memory c) (errno_location c) 4"
    by (simp add: abstract_def load_def split: option.splits if_splits)
  then obtain m' where
    st: "store (memory c) (errno_location c) (int_bytes ENOSYS) = Some m'"
    using store_mapped [of "memory c" "errno_location c" "int_bytes ENOSYS"]
    by (auto simp add: length_int_bytes)
  let ?c' = "c\<lparr>memory := m'\<rparr>"
  have res: "copy_file_range_mem fd_in off_in fd_out off_out len flags c = Some (- 1, ?c')"
    using st by (simp add: copy_file_range_mem_def)
  have e: "load m' (errno_location c) 4 = Some (int_bytes ENOSYS)"
    using load_stored [OF st] by (simp add: length_int_bytes distinct_span4)
  have o: "set (span p 8) \<inter> set (span (errno_location c) 4) = {}
             \<Longrightarrow> load m' p 8 = load (memory c) p 8" for p
    using load_outside [OF st, of p 8] by (simp add: length_int_bytes)
  have "abstract ?c' = Some (s\<lparr>errno := ENOSYS\<rparr>)"
    using assms e o
    by (auto simp add: abstract_def word_of_bytes_ENOSYS fun_eq_iff split: option.splits)
  with res show ?thesis
    by (simp add: copy_file_range_def)
qed

end
